theory Spec2Isabelle
  imports Complex_Main
begin

section \<open>Byte strings and the struct module\<close>

text \<open>
  A file's content is a byte string, written as a \<^typ>\<open>string\<close> (a list of 8-bit
  characters), so that the tags \<open>b'RIFF'\<close>, \<open>b'WAVE'\<close>, \<open>b'fmt '\<close> and \<open>b'data'\<close>
  of the scripts read \<open>''RIFF''\<close>, \<open>''WAVE''\<close>, \<open>''fmt ''\<close> and \<open>''data''\<close>.

  An open file is the list of the bytes after the current position: \<open>f.read(n)\<close>
  returns \<open>take n\<close> of it and leaves \<open>drop n\<close>, and \<open>f.seek(n, 1)\<close> leaves
  \<open>drop n\<close>. Python lets a relative seek move beyond the end of the file and the
  next read then returns \<open>b''\<close>; \<open>drop\<close> beyond the length is \<open>[]\<close>, with the same
  effect.
\<close>

datatype error = StructError | ZeroDivisionError | FileNotFoundError

definition le_value :: "string \<Rightarrow> nat" where
  "le_value bs = foldr (\<lambda>c acc. of_char c + 256 * acc) bs 0"

text \<open>\<open>struct.unpack('<I', b)[0]\<close>: raises \<open>struct.error\<close> unless \<open>b\<close> has 4 bytes.\<close>

definition unpack_I :: "string \<Rightarrow> error + nat" where
  "unpack_I b = (if length b = 4 then Inr (le_value b) else Inl StructError)"

text \<open>\<open>struct.unpack('<H', b)[0]\<close>: raises \<open>struct.error\<close> unless \<open>b\<close> has 2 bytes.\<close>

definition unpack_H :: "string \<Rightarrow> error + nat" where
  "unpack_H b = (if length b = 2 then Inr (le_value b) else Inl StructError)"

text \<open>Sequencing of statements that may raise: the first exception ends the block.\<close>

definition bindE :: "error + 'a \<Rightarrow> ('a \<Rightarrow> error + 'b) \<Rightarrow> error + 'b" where
  "bindE m k = (case m of Inl e \<Rightarrow> Inl e | Inr x \<Rightarrow> k x)"

text \<open>
  The byte strings of concrete files are written with \<open>pack_I\<close> and \<open>pack_H\<close>, the
  little-endian encodings that \<open>unpack_I\<close> and \<open>unpack_H\<close> read back.
\<close>

definition pack_I :: "nat \<Rightarrow> string" where
  "pack_I n = map char_of [n mod 256, n div 256 mod 256, n div 65536 mod 256, n div 16777216 mod 256]"

definition pack_H :: "nat \<Rightarrow> string" where
  "pack_H n = map char_of [n mod 256, n div 256 mod 256]"

section \<open>The probes\<close>

text \<open>The dictionary built from the 16 bytes of the format chunk, with the size field of
  the outer header under the key \<open>file_size\<close>.\<close>

record fmt_info =
  audio_format :: nat
  num_channels :: nat
  sample_rate :: nat
  byte_rate :: nat
  block_align :: nat
  bits_per_sample :: nat
  file_size :: nat

text \<open>The dictionary of \<open>read_wav_header\<close>, in which the key \<open>duration\<close> may be absent.
  A duration is the quotient of two integers; Python rounds it to the nearest double, the
  model keeps the quotient.\<close>

record header = fmt_info +
  duration :: "rat option"

definition header_dict :: "fmt_info \<Rightarrow> rat option \<Rightarrow> header" where
  "header_dict i d =
     \<lparr>audio_format = audio_format i, num_channels = num_channels i,
      sample_rate = sample_rate i, byte_rate = byte_rate i, block_align = block_align i,
      bits_per_sample = bits_per_sample i, file_size = file_size i, duration = d\<rparr>"

text \<open>The six reads of the format chunk, common to \<open>read_wav_header\<close> and to
  \<open>investigate_wav_format\<close> of \<open>investigate_all_formats.py\<close>.\<close>

definition read_fmt_fields :: "nat \<Rightarrow> string \<Rightarrow> error + fmt_info" where
  "read_fmt_fields fsize bs =
     bindE (unpack_H (take 2 bs)) (\<lambda>af.
     bindE (unpack_H (take 2 (drop 2 bs))) (\<lambda>nc.
     bindE (unpack_I (take 4 (drop 4 bs))) (\<lambda>sr.
     bindE (unpack_I (take 4 (drop 8 bs))) (\<lambda>br.
     bindE (unpack_H (take 2 (drop 12 bs))) (\<lambda>ba.
     bindE (unpack_H (take 2 (drop 14 bs))) (\<lambda>bps.
       Inr \<lparr>audio_format = af, num_channels = nc, sample_rate = sr, byte_rate = br,
            block_align = ba, bits_per_sample = bps, file_size = fsize\<rparr>))))))"

subsection \<open>create_audio_duration_csv.py\<close>

text \<open>
  The \<open>while True\<close> loop of \<open>read_wav_header\<close>. \<open>loc\<close> is the part of \<open>locals()\<close> that
  the test \<open>'sample_rate' in locals()\<close> looks at: the format values when they are bound.
  They are bound only in the \<open>fmt\<close> branch, which returns, so every iteration runs
  with the \<open>loc\<close> it started with. \<open>Inl\<close> is an exception raised inside the \<open>try\<close>,
  \<open>Inr None\<close> is \<open>return None\<close> after the \<open>break\<close>.
\<close>

function read_wav_header_loop :: "nat \<Rightarrow> fmt_info option \<Rightarrow> string \<Rightarrow> error + header option" where
  "read_wav_header_loop fsize loc bs =
     (let chunk_id = take 4 bs in
      if chunk_id = [] then Inr None
      else
        case unpack_I (take 4 (drop 4 bs)) of
          Inl e \<Rightarrow> Inl e
        | Inr chunk_size \<Rightarrow>
            if chunk_id = ''fmt '' then
              bindE (read_fmt_fields fsize (drop 8 bs))
                (\<lambda>i. Inr (Some (header_dict i None)))
            else if chunk_id = ''data'' then
              (case loc of
                 Some i \<Rightarrow>
                   (let d = sample_rate i * num_channels i * (bits_per_sample i div 8) in
                    if d = 0 then Inl ZeroDivisionError
                    else Inr (Some (header_dict i
                           (Some (rat_of_int (int chunk_size) / rat_of_int (int d))))))
               | None \<Rightarrow> read_wav_header_loop fsize loc (drop chunk_size (drop 8 bs)))
            else read_wav_header_loop fsize loc (drop chunk_size (drop 8 bs)))"
  by pat_completeness auto
termination
  by (relation "measure (\<lambda>(fsize, loc, bs). length bs)") auto

declare read_wav_header_loop.simps [simp del]

text \<open>\<open>read_wav_header\<close>: the body of the \<open>try\<close>, then the handler that turns every
  exception into \<open>None\<close>.\<close>

definition read_wav_header_body :: "string \<Rightarrow> error + header option" where
  "read_wav_header_body bs =
     (let riff = take 4 bs in
      if riff \<noteq> ''RIFF'' then Inr None
      else
        bindE (unpack_I (take 4 (drop 4 bs))) (\<lambda>fsize.
          let wave = take 4 (drop 8 bs) in
          if wave \<noteq> ''WAVE'' then Inr None
          else read_wav_header_loop fsize None (drop 12 bs)))"

definition read_wav_header :: "string \<Rightarrow> header option" where
  "read_wav_header bs = (case read_wav_header_body bs of Inl e \<Rightarrow> None | Inr r \<Rightarrow> r)"

text \<open>
  \<open>get_audio_duration\<close> as a function of what its two calls of \<open>read_wav_header\<close>
  return; \<open>fallback_duration\<close> is its \<open>else\<close> branch. A dictionary is
  true in a condition when it is not empty, which every dictionary of
  \<open>read_wav_header\<close> is. \<open>file_size - 44\<close> is a subtraction of Python integers,
  so it may be negative; the division raises \<open>ZeroDivisionError\<close> on a zero
  \<open>byte_rate\<close>, and the handler returns \<open>None\<close>.
\<close>

definition fallback_duration :: "header option \<Rightarrow> error + rat option" where
  "fallback_duration second =
     (case second of
        Some header_info \<Rightarrow>
          (let data_size = int (file_size header_info) - 44 in
           if byte_rate header_info = 0 then Inl ZeroDivisionError
           else Inr (Some (rat_of_int data_size / rat_of_int (int (byte_rate header_info)))))
      | None \<Rightarrow> Inr None)"

definition get_audio_duration_body :: "header option \<Rightarrow> header option \<Rightarrow> error + rat option" where
  "get_audio_duration_body first second =
     (case first of
        Some header_info \<Rightarrow>
          (case duration header_info of
             Some d \<Rightarrow> Inr (Some d)
           | None \<Rightarrow> fallback_duration second)
      | None \<Rightarrow> fallback_duration second)"

definition get_audio_duration :: "string \<Rightarrow> rat option" where
  "get_audio_duration bs =
     (case get_audio_duration_body (read_wav_header bs) (read_wav_header bs) of
        Inl e \<Rightarrow> None
      | Inr r \<Rightarrow> r)"

subsection \<open>convert_all_ieee_formats.py\<close>

text \<open>The loop of \<open>investigate_wav_format\<close>; falling out of it with \<open>break\<close> ends the
  function, which then returns \<open>None\<close>.\<close>

function investigate_loop :: "string \<Rightarrow> error + nat option" where
  "investigate_loop bs =
     (let chunk_id = take 4 bs in
      if chunk_id = [] then Inr None
      else
        case unpack_I (take 4 (drop 4 bs)) of
          Inl e \<Rightarrow> Inl e
        | Inr chunk_size \<Rightarrow>
            if chunk_id = ''fmt '' then
              bindE (unpack_H (take 2 (drop 8 bs))) (\<lambda>af. Inr (Some af))
            else investigate_loop (drop chunk_size (drop 8 bs)))"
  by pat_completeness auto
termination
  by (relation "measure length") auto

declare investigate_loop.simps [simp del]

definition investigate_wav_format_body :: "string \<Rightarrow> error + nat option" where
  "investigate_wav_format_body bs =
     (let riff_header = take 4 bs in
      bindE (unpack_I (take 4 (drop 4 bs))) (\<lambda>fsize.
        let wave_header = take 4 (drop 8 bs) in
        investigate_loop (drop 12 bs)))"

definition investigate_wav_format :: "string \<Rightarrow> nat option" where
  "investigate_wav_format bs =
     (case investigate_wav_format_body bs of Inl e \<Rightarrow> None | Inr r \<Rightarrow> r)"

subsection \<open>investigate_all_formats.py\<close>

text \<open>The result of this script's \<open>investigate_wav_format\<close>: the dictionary of the
  format chunk, \<open>None\<close> (the function ends after the \<open>break\<close>), or the dictionary
  \<open>{'error': str(e)}\<close> of the handler.\<close>

datatype probe_result = Format fmt_info | NoResult | ErrorDict error

function investigate_all_loop :: "nat \<Rightarrow> string \<Rightarrow> error + fmt_info option" where
  "investigate_all_loop fsize bs =
     (let chunk_id = take 4 bs in
      if chunk_id = [] then Inr None
      else
        case unpack_I (take 4 (drop 4 bs)) of
          Inl e \<Rightarrow> Inl e
        | Inr chunk_size \<Rightarrow>
            if chunk_id = ''fmt '' then
              bindE (read_fmt_fields fsize (drop 8 bs)) (\<lambda>i. Inr (Some i))
            else investigate_all_loop fsize (drop chunk_size (drop 8 bs)))"
  by pat_completeness auto
termination
  by (relation "measure (\<lambda>(fsize, bs). length bs)") auto

declare investigate_all_loop.simps [simp del]

definition investigate_wav_format_all_body :: "string \<Rightarrow> error + fmt_info option" where
  "investigate_wav_format_all_body bs =
     (let riff_header = take 4 bs in
      bindE (unpack_I (take 4 (drop 4 bs))) (\<lambda>fsize.
        let wave_header = take 4 (drop 8 bs) in
        investigate_all_loop fsize (drop 12 bs)))"

definition investigate_wav_format_all :: "string \<Rightarrow> probe_result" where
  "investigate_wav_format_all bs =
     (case investigate_wav_format_all_body bs of
        Inl e \<Rightarrow> ErrorDict e
      | Inr None \<Rightarrow> NoResult
      | Inr (Some i) \<Rightarrow> Format i)"

section \<open>The file system and the external tool\<close>

text \<open>
  The scripts work in two directories: \<open>raw/wavs\<close> and a backup directory. A path is
  the directory and the file name. A file is its bytes and its modification time, which
  \<open>shutil.copy2\<close> copies with the bytes; a file system maps the paths that exist to
  their files.
\<close>

datatype path = Wavs string | Backup string

record stored_file =
  content :: string
  mtime :: nat

type_synonym filesystem = "path \<rightharpoonup> stored_file"

definition copy2 :: "filesystem \<Rightarrow> path \<Rightarrow> path \<Rightarrow> error + filesystem" where
  "copy2 fs src dst =
     (case fs src of None \<Rightarrow> Inl FileNotFoundError | Some f \<Rightarrow> Inr (fs(dst \<mapsto> f)))"

definition unlink :: "filesystem \<Rightarrow> path \<Rightarrow> error + filesystem" where
  "unlink fs p =
     (case fs p of None \<Rightarrow> Inl FileNotFoundError | Some f \<Rightarrow> Inr (fs(p := None)))"

definition rename :: "filesystem \<Rightarrow> path \<Rightarrow> path \<Rightarrow> error + filesystem" where
  "rename fs src dst =
     (case fs src of
        None \<Rightarrow> Inl FileNotFoundError
      | Some f \<Rightarrow> Inr ((fs(src := None))(dst \<mapsto> f)))"

definition exists :: "filesystem \<Rightarrow> path \<Rightarrow> bool" where
  "exists fs p = (fs p \<noteq> None)"

text \<open>
  One call of \<open>subprocess.run\<close> on \<open>ffmpeg\<close>, as the scripts see it, in two parts.

  What the process did to the disk: to its input file and to its output path it did
  nothing, or removed what was there, or left a file. The model fixes that a run touches
  no other path; a run that damages its own input is allowed.

  What \<open>subprocess.run\<close> did: it returned, with the return code and the decoded standard
  error of the process, or it raised. It raises when the program cannot be started, and,
  since the scripts pass \<open>text=True\<close>, when the standard error of the process cannot be
  decoded; that happens after the process has exited, whatever its status was and with
  its output on the disk.

  The tool is a parameter of the model: any function of its two paths and of the file
  system.
\<close>

datatype effect = Untouched | Removed | Written stored_file

definition apply_effect :: "filesystem \<Rightarrow> path \<Rightarrow> effect \<Rightarrow> filesystem" where
  "apply_effect fs p eff =
     (case eff of Untouched \<Rightarrow> fs | Removed \<Rightarrow> fs(p := None) | Written f \<Rightarrow> fs(p \<mapsto> f))"

datatype run_result = Completed int string | Raised string

record tool_run =
  on_input :: effect
  on_output :: effect
  returned :: run_result

type_synonym tool = "path \<Rightarrow> path \<Rightarrow> filesystem \<Rightarrow> tool_run"

text \<open>\<open>convert_wav_format\<close> of \<open>convert_all_ieee_formats.py\<close> and
  \<open>convert_russian_wav_format.py\<close>: the pair \<open>(success, error)\<close> and the file system
  after the run. An exception of \<open>subprocess.run\<close> is caught and gives
  \<open>(False, str(e))\<close>. The one of \<open>convert_chinese_wav_format.py\<close> prints the error and
  returns the first component alone.\<close>

definition convert_wav_format ::
  "tool \<Rightarrow> filesystem \<Rightarrow> path \<Rightarrow> path \<Rightarrow> (bool \<times> string option) \<times> filesystem" where
  "convert_wav_format tool fs input_file output_file =
     (let run = tool input_file output_file fs;
          fs' = apply_effect (apply_effect fs input_file (on_input run))
                  output_file (on_output run)
      in case returned run of
           Completed returncode stderr \<Rightarrow>
             ((if returncode = 0 then (True, None) else (False, Some stderr)), fs')
         | Raised msg \<Rightarrow> ((False, Some msg), fs'))"

section \<open>The conversion loops\<close>

text \<open>
  \<open>Path.stem\<close> of a file name, as \<open>pathlib\<close> (CPython 3.11) computes it: with \<open>i\<close> the
  index of the last
  dot (\<open>name.rfind('.')\<close>), the name up to \<open>i\<close> if \<open>0 < i < len(name) - 1\<close> and the whole
  name otherwise. So the stem of \<open>a.wav\<close> is \<open>a\<close> and the stem of the hidden file
  \<open>.wav\<close> is \<open>.wav\<close>. \<open>with_suffix(sfx)\<close> is the stem followed by \<open>sfx\<close>.
\<close>

fun rfind :: "string \<Rightarrow> char \<Rightarrow> nat option" where
  "rfind [] c = None"
| "rfind (x # xs) c =
     (case rfind xs c of
        Some i \<Rightarrow> Some (Suc i)
      | None \<Rightarrow> if x = c then Some 0 else None)"

definition path_stem :: "string \<Rightarrow> string" where
  "path_stem name =
     (case rfind name CHR ''.'' of
        None \<Rightarrow> name
      | Some i \<Rightarrow> if 0 < i \<and> i < length name - 1 then take i name else name)"

text \<open>
  An input file is given by its name in \<open>raw/wavs\<close> (\<open>wav_file.name\<close>). Its backup has
  the same name in the backup directory, and its temporary output is its stem followed
  by \<open>sfx\<close> in \<open>raw/wavs\<close>, where \<open>sfx\<close> is \<open>''.temp.wav''\<close> in
  \<open>convert_all_ieee_formats.py\<close> and \<open>convert_russian_wav_format.py\<close>
  (\<open>f"{wav_file.stem}.temp.wav"\<close>) and \<open>''.tmp.wav''\<close> in
  \<open>convert_chinese_wav_format.py\<close> (\<open>wav_file.with_suffix('.tmp.wav')\<close>).

  \<open>convert_file\<close> is the body of the \<open>for\<close> loop, the same in the three scripts up to
  \<open>sfx\<close> and to the counters: it returns the file system and the branch taken,
  \<open>Converted\<close> (the \<open>if\<close> branch, counted in \<open>success_count\<close>) or \<open>Failed\<close> with the
  error (the \<open>else\<close> branch, recorded in \<open>failed_files\<close>). \<open>Inl\<close> is an exception
  that leaves the loop, with the file system at that moment.
\<close>

datatype outcome = Converted | Failed "string option"

definition convert_file ::
  "string \<Rightarrow> tool \<Rightarrow> filesystem \<Rightarrow> string \<Rightarrow> (error \<times> filesystem) + (filesystem \<times> outcome)" where
  "convert_file sfx tool fs name =
     (let wav_file = Wavs name;
          backup_file = Backup name
      in case copy2 fs wav_file backup_file of
           Inl e \<Rightarrow> Inl (e, fs)
         | Inr fs1 \<Rightarrow>
             (let temp_output = Wavs (path_stem name @ sfx);
                  r = convert_wav_format tool fs1 wav_file temp_output;
                  success = fst (fst r); err = snd (fst r); fs2 = snd r
              in if success then
                   (case unlink fs2 wav_file of
                      Inl e \<Rightarrow> Inl (e, fs2)
                    | Inr fs3 \<Rightarrow>
                        (case rename fs3 temp_output wav_file of
                           Inl e \<Rightarrow> Inl (e, fs3)
                         | Inr fs4 \<Rightarrow> Inr (fs4, Converted)))
                 else
                   (case (if exists fs2 temp_output then unlink fs2 temp_output else Inr fs2) of
                      Inl e \<Rightarrow> Inl (e, fs2)
                    | Inr fs3 \<Rightarrow>
                        (case copy2 fs3 backup_file wav_file of
                           Inl e \<Rightarrow> Inl (e, fs3)
                         | Inr fs4 \<Rightarrow> Inr (fs4, Failed err)))))"

text \<open>The loop bodies in sequence, with the branch each file took: what the loops below
  do to the file system, apart from their counters. It stops at the first exception.\<close>

fun convert_files ::
  "string \<Rightarrow> tool \<Rightarrow> filesystem \<Rightarrow> string list \<Rightarrow>
     filesystem \<times> (string \<times> outcome) list \<times> error option" where
  "convert_files sfx tool fs [] = (fs, [], None)"
| "convert_files sfx tool fs (name # rest) =
     (case convert_file sfx tool fs name of
        Inl (e, fs') \<Rightarrow> (fs', [], Some e)
      | Inr (fs', out) \<Rightarrow>
          (case convert_files sfx tool fs' rest of
             (fs'', outs, x) \<Rightarrow> (fs'', (name, out) # outs, x)))"

text \<open>The loop of \<open>main\<close> in \<open>convert_all_ieee_formats.py\<close> (over \<open>ieee_files\<close>) and in
  \<open>convert_russian_wav_format.py\<close> (over \<open>ru_files\<close>). The result is the state the loop
  ends in and the exception that ended it, if one did. \<open>loop_start\<close> is the state in
  which the scripts enter it.\<close>

record conv_state =
  files :: filesystem
  success_count :: nat
  failed_count :: nat
  failed_files :: "(string \<times> string option) list"

definition loop_start :: "filesystem \<Rightarrow> conv_state" where
  "loop_start fs = \<lparr>files = fs, success_count = 0, failed_count = 0, failed_files = []\<rparr>"

fun main_loop :: "tool \<Rightarrow> conv_state \<Rightarrow> string list \<Rightarrow> conv_state \<times> error option" where
  "main_loop tool st [] = (st, None)"
| "main_loop tool st (name # rest) =
     (case convert_file ''.temp.wav'' tool (files st) name of
        Inl (e, fs') \<Rightarrow> (st\<lparr>files := fs'\<rparr>, Some e)
      | Inr (fs', Converted) \<Rightarrow>
          main_loop tool (st\<lparr>files := fs', success_count := success_count st + 1\<rparr>) rest
      | Inr (fs', Failed err) \<Rightarrow>
          main_loop tool
            (st\<lparr>files := fs', failed_count := failed_count st + 1,
                failed_files := failed_files st @ [(name, err)]\<rparr>) rest)"

text \<open>The loop of \<open>backup_and_convert\<close> in \<open>convert_chinese_wav_format.py\<close>, over every
  file matched by \<open>zh_*.wav\<close>: the script has no probe.\<close>

record zh_state =
  zh_files :: filesystem
  zh_success_count :: nat
  zh_failed_files :: "string list"

definition zh_start :: "filesystem \<Rightarrow> zh_state" where
  "zh_start fs = \<lparr>zh_files = fs, zh_success_count = 0, zh_failed_files = []\<rparr>"

fun backup_and_convert_loop :: "tool \<Rightarrow> zh_state \<Rightarrow> string list \<Rightarrow> zh_state \<times> error option" where
  "backup_and_convert_loop tool st [] = (st, None)"
| "backup_and_convert_loop tool st (name # rest) =
     (case convert_file ''.tmp.wav'' tool (zh_files st) name of
        Inl (e, fs') \<Rightarrow> (st\<lparr>zh_files := fs'\<rparr>, Some e)
      | Inr (fs', Converted) \<Rightarrow>
          backup_and_convert_loop tool
            (st\<lparr>zh_files := fs', zh_success_count := zh_success_count st + 1\<rparr>) rest
      | Inr (fs', Failed err) \<Rightarrow>
          backup_and_convert_loop tool
            (st\<lparr>zh_files := fs', zh_failed_files := zh_failed_files st @ [name]\<rparr>) rest)"

definition backup_and_convert :: "tool \<Rightarrow> filesystem \<Rightarrow> string list \<Rightarrow> zh_state \<times> error option" where
  "backup_and_convert tool fs chinese_files =
     (let st = zh_start fs
      in if chinese_files = [] then (st, None)
         else backup_and_convert_loop tool st chinese_files)"

text \<open>The first loop of \<open>main\<close> in \<open>convert_all_ieee_formats.py\<close>: the probe of each
  file and the three lists. A file that cannot be opened raises inside the probe's
  \<open>try\<close>, so its probe is \<open>None\<close>.\<close>

definition probe_file :: "filesystem \<Rightarrow> string \<Rightarrow> nat option" where
  "probe_file fs name =
     (case fs (Wavs name) of
        None \<Rightarrow> None
      | Some f \<Rightarrow> investigate_wav_format (content f))"

definition ieee_files :: "filesystem \<Rightarrow> string list \<Rightarrow> string list" where
  "ieee_files fs wav_files = filter (\<lambda>n. probe_file fs n = Some 3) wav_files"

definition pcm_files :: "filesystem \<Rightarrow> string list \<Rightarrow> string list" where
  "pcm_files fs wav_files =
     filter (\<lambda>n. probe_file fs n \<noteq> Some 3 \<and> probe_file fs n = Some 1) wav_files"

definition other_files :: "filesystem \<Rightarrow> string list \<Rightarrow> string list" where
  "other_files fs wav_files =
     filter (\<lambda>n. probe_file fs n \<noteq> Some 3 \<and> probe_file fs n \<noteq> Some 1) wav_files"

text \<open>
  \<open>main\<close> of \<open>convert_all_ieee_formats.py\<close>, without its printing: the lists, the
  return when nothing is to convert, the test conversion of the first file to its stem
  followed by \<open>.test.wav\<close> (its \<open>stat\<close> raises when the tool left no output), the question
  to the user (\<open>proceed\<close> is \<open>response == 'y'\<close> after \<open>strip\<close> and \<open>lower\<close>), and the
  loop.
\<close>

definition main :: "tool \<Rightarrow> bool \<Rightarrow> filesystem \<Rightarrow> string list \<Rightarrow> conv_state \<times> error option" where
  "main tool proceed fs wav_files =
     (let st = loop_start fs
      in case ieee_files fs wav_files of
           [] \<Rightarrow> (st, None)
         | test_name # others \<Rightarrow>
             (let test_file = Wavs test_name;
                  test_backup = Backup test_name;
                  test_output = Wavs (path_stem test_name @ ''.test.wav'')
              in case copy2 fs test_file test_backup of
                   Inl e \<Rightarrow> (st, Some e)
                 | Inr fs1 \<Rightarrow>
                     (let r = convert_wav_format tool fs1 test_file test_output;
                          success = fst (fst r); fs2 = snd r
                      in if success then
                           (if exists fs2 test_file \<and> exists fs2 test_output then
                              (case unlink fs2 test_output of
                                 Inl e \<Rightarrow> (st\<lparr>files := fs2\<rparr>, Some e)
                               | Inr fs3 \<Rightarrow>
                                   if proceed
                                   then main_loop tool (st\<lparr>files := fs3\<rparr>) (test_name # others)
                                   else (st\<lparr>files := fs3\<rparr>, None))
                            else (st\<lparr>files := fs2\<rparr>, Some FileNotFoundError))
                         else (st\<lparr>files := fs2\<rparr>, None))))"

section \<open>Well-formed chunks and located data chunks\<close>

text \<open>
  A chunk as three byte strings: tag, size field and payload. \<open>skipped_chunk\<close> holds of
  a chunk that the walks step over and after which they stand at the next chunk header:
  a tag of 4 bytes other than \<open>fmt\<close>, a size field of 4 bytes, and a payload of exactly
  the declared size.
\<close>

definition chunk_bytes :: "string \<times> string \<times> string \<Rightarrow> string" where
  "chunk_bytes c = fst c @ fst (snd c) @ snd (snd c)"

definition skipped_chunk :: "string \<times> string \<times> string \<Rightarrow> bool" where
  "skipped_chunk c =
     (length (fst c) = 4 \<and> fst c \<noteq> ''fmt '' \<and> length (fst (snd c)) = 4 \<and>
      le_value (fst (snd c)) = length (snd (snd c)))"

text \<open>
  Stated from the words of the specification (``if a data chunk was located''), not
  from the scripts: whether a walk over the chunk stream that steps over every chunk by
  its declared size reaches a chunk with the tag \<open>data\<close>.
\<close>

function spec_data_chunk_located :: "string \<Rightarrow> bool" where
  "spec_data_chunk_located bs =
     (if length bs < 8 then False
      else if take 4 bs = ''data'' then True
      else spec_data_chunk_located (drop (le_value (take 4 (drop 4 bs))) (drop 8 bs)))"
  by pat_completeness auto
termination
  by (relation "measure length") auto

declare spec_data_chunk_located.simps [simp del]

section \<open>Concrete files\<close>

text \<open>The format chunk (one channel, 16 bits, 16000 bytes per second, with the given
  format tag and sample rate) followed by a data chunk of 32 bytes, and the 76-byte file
  that holds the two after the 12-byte outer header.\<close>

definition wav_chunks :: "nat \<Rightarrow> nat \<Rightarrow> string" where
  "wav_chunks tag rate =
     ''fmt '' @ pack_I 16 @ pack_H tag @ pack_H 1 @ pack_I rate @ pack_I 16000 @
       pack_H 2 @ pack_H 16 @
     ''data'' @ pack_I 32 @ replicate 32 (char_of (0::nat))"

definition wav_bytes :: "nat \<Rightarrow> nat \<Rightarrow> string" where
  "wav_bytes tag rate = ''RIFF'' @ pack_I 68 @ ''WAVE'' @ wav_chunks tag rate"

text \<open>The same file cut after its format chunk, so that it has no data chunk; the size
  field of its outer header is 76.\<close>

definition wav_no_data :: string where
  "wav_no_data = ''RIFF'' @ pack_I 76 @ ''WAVE'' @ take 24 (wav_chunks 1 8000)"

text \<open>The dictionary that the \<open>data\<close> branch of \<open>read_wav_header\<close> builds from these
  format values and a data chunk of 32 bytes: \<open>32 / (8000 * 1 * (16 // 8))\<close>.\<close>

definition exact_header :: header where
  "exact_header =
     \<lparr>audio_format = 1, num_channels = 1, sample_rate = 8000, byte_rate = 16000,
      block_align = 2, bits_per_sample = 16, file_size = 68, duration = Some (1 / 500)\<rparr>"

text \<open>A \<open>LIST\<close> chunk with a payload of 3 bytes, as declared.\<close>

definition list_chunk :: "string \<times> string \<times> string" where
  "list_chunk = (''LIST'', pack_I 3, ''abc'')"

text \<open>Files of \<open>raw/wavs\<close>: one in IEEE float format (tag 3), one already in PCM
  (tag 1), and what a run of the tool may leave: a converted file, or bytes that are no
  WAV file at all.\<close>

definition ieee_file :: stored_file where
  "ieee_file = \<lparr>content = wav_bytes 3 8000, mtime = 1\<rparr>"

definition pcm_file :: stored_file where
  "pcm_file = \<lparr>content = wav_bytes 1 8000, mtime = 1\<rparr>"

definition converted_file :: stored_file where
  "converted_file = \<lparr>content = wav_bytes 1 22050, mtime = 2\<rparr>"

definition junk_file :: stored_file where
  "junk_file = \<lparr>content = ''junk'', mtime = 2\<rparr>"

text \<open>
  Tools. \<open>failing_tool\<close> exits with status 1 and touches nothing. \<open>pcm_tool\<close> exits
  with status 0 and leaves a converted file. \<open>junk_tool\<close> exits with status 0 and leaves
  junk. \<open>clobber_tool bad\<close> overwrites the input \<open>bad\<close> with junk, leaves junk at its
  output and exits with status 1; on any other input it is \<open>pcm_tool\<close>.
  \<open>undecodable_tool\<close> leaves a converted file, and \<open>subprocess.run\<close> raises while
  decoding its standard error.
\<close>

definition failing_tool :: tool where
  "failing_tool input_file output_file fs =
     \<lparr>on_input = Untouched, on_output = Untouched, returned = Completed 1 ''error''\<rparr>"

definition pcm_tool :: tool where
  "pcm_tool input_file output_file fs =
     \<lparr>on_input = Untouched, on_output = Written converted_file, returned = Completed 0 []\<rparr>"

definition junk_tool :: tool where
  "junk_tool input_file output_file fs =
     \<lparr>on_input = Untouched, on_output = Written junk_file, returned = Completed 0 []\<rparr>"

definition clobber_tool :: "string \<Rightarrow> tool" where
  "clobber_tool bad input_file output_file fs =
     (if input_file = Wavs bad
      then \<lparr>on_input = Written junk_file, on_output = Written junk_file,
            returned = Completed 1 ''error''\<rparr>
      else pcm_tool input_file output_file fs)"

definition undecodable_tool :: tool where
  "undecodable_tool input_file output_file fs =
     \<lparr>on_input = Untouched, on_output = Written converted_file,
      returned = Raised ''UnicodeDecodeError''\<rparr>"


definition fs_two :: filesystem where
  "fs_two = [Wavs ''a.wav'' \<mapsto> ieee_file, Wavs ''b.wav'' \<mapsto> pcm_file]"


definition fs_zh :: filesystem where
  "fs_zh = [Wavs ''zh_a.wav'' \<mapsto> pcm_file]"


section \<open>Properties of the probes\<close>




lemma investigate_loop_short:
  "0 < length bs \<Longrightarrow> length bs < 8 \<Longrightarrow> investigate_loop bs = Inl StructError"
  by (subst investigate_loop.simps) (auto simp: unpack_I_def Let_def)

lemma investigate_all_loop_short:
  "0 < length bs \<Longrightarrow> length bs < 8 \<Longrightarrow> investigate_all_loop fsize bs = Inl StructError"
  by (subst investigate_all_loop.simps) (auto simp: unpack_I_def Let_def)


lemma investigate_loop_empty: "investigate_loop [] = Inr None"
  by (subst investigate_loop.simps) simp

lemma investigate_all_loop_empty: "investigate_all_loop fsize [] = Inr None"
  by (subst investigate_all_loop.simps) simp


lemma investigate_loop_skip:
  "length cid = 4 \<Longrightarrow> cid \<noteq> ''fmt '' \<Longrightarrow> length sz = 4 \<Longrightarrow>
   investigate_loop (cid @ sz @ rest) = investigate_loop (drop (le_value sz) rest)"
  by (subst investigate_loop.simps) (auto simp: unpack_I_def Let_def)

lemma investigate_all_loop_skip:
  "length cid = 4 \<Longrightarrow> cid \<noteq> ''fmt '' \<Longrightarrow> length sz = 4 \<Longrightarrow>
   investigate_all_loop fsize (cid @ sz @ rest) = investigate_all_loop fsize (drop (le_value sz) rest)"
  by (subst investigate_all_loop.simps) (auto simp: unpack_I_def Let_def)

lemma read_wav_header_loop_skip:
  "length cid = 4 \<Longrightarrow> cid \<noteq> ''fmt '' \<Longrightarrow> length sz = 4 \<Longrightarrow>
   read_wav_header_loop fsize None (cid @ sz @ rest) = read_wav_header_loop fsize None (drop (le_value sz) rest)"
  by (subst read_wav_header_loop.simps) (auto simp: unpack_I_def Let_def)




lemma read_wav_header_loop_no_duration:
  "read_wav_header_loop fsize None bs = Inr (Some h) \<Longrightarrow> duration h = None"
proof (induction "length bs" arbitrary: bs rule: less_induct)
  case less
  have IH: "bs \<noteq> [] \<Longrightarrow> read_wav_header_loop fsize None (drop (n + 8) bs) = Inr (Some h)
              \<Longrightarrow> duration h = None" for n
    using less.hyps [of "drop (n + 8) bs"] by auto
  from less.prems show ?case
    apply (subst (asm) read_wav_header_loop.simps)
    apply (auto simp: Let_def bindE_def header_dict_def split: if_splits sum.splits dest: IH)
    done
qed

lemmas probe_eval =
  pack_I_def pack_H_def unpack_I_def unpack_H_def le_value_def bindE_def Let_def
  read_fmt_fields_def header_dict_def wav_chunks_def wav_bytes_def

lemma get_audio_duration_fallback:
  "get_audio_duration bs =
     (case read_wav_header bs of
        None \<Rightarrow> None
      | Some h \<Rightarrow> if byte_rate h = 0 then None
                  else Some ((rat_of_int (int (file_size h)) - 44) / rat_of_nat (byte_rate h)))"
proof (cases "read_wav_header bs")
  case None
  then show ?thesis
    by (simp add: get_audio_duration_def get_audio_duration_body_def fallback_duration_def)
next
  case (Some h)
  then have "read_wav_header_body bs = Inr (Some h)"
    by (auto simp: read_wav_header_def split: sum.splits)
  then have "duration h = None"
    by (auto simp: read_wav_header_body_def bindE_def Let_def
             split: if_splits sum.splits dest: read_wav_header_loop_no_duration)
  with Some show ?thesis
    by (simp add: get_audio_duration_def get_audio_duration_body_def fallback_duration_def Let_def)
qed

lemma read_wav_header_wav_bytes:
  "read_wav_header (wav_bytes tag rate) =
     Some \<lparr>audio_format = tag mod 256 + 256 * (tag div 256 mod 256), num_channels = 1,
           sample_rate = rate mod 256 + 256 * (rate div 256 mod 256 + 256 * (rate div 65536 mod 256 + 256 * (rate div 16777216 mod 256))),
           byte_rate = 16000, block_align = 2, bits_per_sample = 16, file_size = 68,
           duration = None\<rparr>"
  by (simp add: read_wav_header_def read_wav_header_body_def read_wav_header_loop.simps probe_eval)

text \<open>
  C2, on the code: for a well-formed file whose format chunk is followed by a data chunk
  of 32 bytes (8000 Hz, one channel, 16 bits), the duration is claimed to be
  \<open>32 / (8000 * 1 * (16 / 8))\<close>, which is \<open>1 / 500\<close>. \<open>read_wav_header\<close> returns at
  the format chunk, before it reaches the data chunk, so \<open>get_audio_duration\<close> takes
  its second path and returns \<open>(68 - 44) / 16000\<close>, where 68 is the size field of the
  outer header.
\<close>

theorem duration_ignores_data_chunk:
  "get_audio_duration (wav_bytes 1 8000) = Some (3 / 2000) \<and>
   get_audio_duration (wav_bytes 1 8000) \<noteq> Some (32 / (8000 * 1 * (16 / 8)))"
  by (simp add: get_audio_duration_fallback read_wav_header_wav_bytes)

text \<open>
  C6, on the code: a file whose two magic tags are \<open>XXXX\<close> instead of \<open>RIFF\<close> and
  \<open>WAVE\<close>. \<open>read_wav_header\<close> returns \<open>None\<close> for it, while
  \<open>investigate_wav_format\<close> of \<open>convert_all_ieee_formats.py\<close>, which reads the two tags
  and never compares them, returns the format tag 3 of its format chunk.
\<close>

theorem investigate_accepts_bad_magic:
  "investigate_wav_format (''XXXX'' @ pack_I 68 @ ''XXXX'' @ wav_chunks 3 8000) = Some 3 \<and>
   read_wav_header (''XXXX'' @ pack_I 68 @ ''XXXX'' @ wav_chunks 3 8000) = None"
  by (simp add: investigate_wav_format_def investigate_wav_format_body_def investigate_loop.simps
        read_wav_header_def read_wav_header_body_def probe_eval)

text \<open>
  C7 as stated fails: a chunk header that declares 1000 bytes of payload where 3 bytes
  remain raises nothing. The seek moves beyond the end of the file, the next read is
  empty, and the walk ends with \<open>None\<close>, not with the error dictionary.
\<close>

theorem oversized_chunk_not_reported:
  "investigate_wav_format_all_body
     (''RIFF'' @ pack_I 1020 @ ''WAVE'' @ ''LIST'' @ pack_I 1000 @ ''abc'') = Inr None \<and>
   investigate_wav_format_all
     (''RIFF'' @ pack_I 1020 @ ''WAVE'' @ ''LIST'' @ pack_I 1000 @ ''abc'') = NoResult"
  by (simp add: investigate_wav_format_all_def investigate_wav_format_all_body_def
        investigate_all_loop.simps probe_eval)

lemma investigate_loop_skipped:
  "skipped_chunk c \<Longrightarrow> investigate_loop (chunk_bytes c @ rest) = investigate_loop rest"
  using investigate_loop_skip [of "fst c" "fst (snd c)" "snd (snd c) @ rest"]
  by (simp add: skipped_chunk_def chunk_bytes_def)

lemma investigate_all_loop_skipped:
  "skipped_chunk c \<Longrightarrow>
   investigate_all_loop fsize (chunk_bytes c @ rest) = investigate_all_loop fsize rest"
  using investigate_all_loop_skip [of "fst c" "fst (snd c)" fsize "snd (snd c) @ rest"]
  by (simp add: skipped_chunk_def chunk_bytes_def)

lemma read_wav_header_loop_skipped:
  "skipped_chunk c \<Longrightarrow>
   read_wav_header_loop fsize None (chunk_bytes c @ rest) = read_wav_header_loop fsize None rest"
  using read_wav_header_loop_skip [of "fst c" "fst (snd c)" fsize "snd (snd c) @ rest"]
  by (simp add: skipped_chunk_def chunk_bytes_def)

lemma investigate_loop_prefix:
  "\<forall>c\<in>set cs. skipped_chunk c \<Longrightarrow>
   investigate_loop (concat (map chunk_bytes cs) @ rest) = investigate_loop rest"
  by (induction cs) (simp_all add: investigate_loop_skipped)

lemma investigate_all_loop_prefix:
  "\<forall>c\<in>set cs. skipped_chunk c \<Longrightarrow>
   investigate_all_loop fsize (concat (map chunk_bytes cs) @ rest) =
     investigate_all_loop fsize rest"
  by (induction cs) (simp_all add: investigate_all_loop_skipped)

lemma read_wav_header_loop_prefix:
  "\<forall>c\<in>set cs. skipped_chunk c \<Longrightarrow>
   read_wav_header_loop fsize None (concat (map chunk_bytes cs) @ rest) =
     read_wav_header_loop fsize None rest"
  by (induction cs) (simp_all add: read_wav_header_loop_skipped)

lemma investigate_loop_fmt:
  "length sz = 4 \<Longrightarrow>
   investigate_loop (''fmt '' @ sz @ payload) =
     (if 2 \<le> length payload then Inr (Some (le_value (take 2 payload))) else Inl StructError)"
  by (subst investigate_loop.simps) (auto simp: unpack_I_def unpack_H_def bindE_def Let_def)

lemma investigate_all_loop_fmt:
  "length sz = 4 \<Longrightarrow>
   investigate_all_loop fsize (''fmt '' @ sz @ payload) =
     bindE (read_fmt_fields fsize payload) (\<lambda>i. Inr (Some i))"
  by (subst investigate_all_loop.simps) (simp add: unpack_I_def Let_def)

lemma read_wav_header_loop_fmt:
  "length sz = 4 \<Longrightarrow>
   read_wav_header_loop fsize loc (''fmt '' @ sz @ payload) =
     bindE (read_fmt_fields fsize payload) (\<lambda>i. Inr (Some (header_dict i None)))"
  by (subst read_wav_header_loop.simps) (simp add: unpack_I_def Let_def)

lemmas fmt_chunk_cons =
  investigate_loop_fmt [simplified] investigate_all_loop_fmt [simplified]
  read_wav_header_loop_fmt [simplified]

lemma investigate_wav_format_hdr:
  "length hdr = 12 \<Longrightarrow>
   investigate_wav_format (hdr @ rest) =
     (case investigate_loop rest of Inl e \<Rightarrow> None | Inr r \<Rightarrow> r)"
  by (simp add: investigate_wav_format_def investigate_wav_format_body_def unpack_I_def
        bindE_def)

lemma investigate_wav_format_all_hdr:
  "length hdr = 12 \<Longrightarrow>
   investigate_wav_format_all (hdr @ rest) =
     (case investigate_all_loop (le_value (take 4 (drop 4 hdr))) rest of
        Inl e \<Rightarrow> ErrorDict e
      | Inr None \<Rightarrow> NoResult
      | Inr (Some i) \<Rightarrow> Format i)"
  by (simp add: investigate_wav_format_all_def investigate_wav_format_all_body_def unpack_I_def
        bindE_def)

text \<open>
  C7, amended. The walk has gone over the 12-byte outer header and over any number of
  chunks that it skips (\<open>cs\<close>), and stands where the next chunk header is expected.

  With 1 to 7 bytes left there, the reader raises \<open>struct.error\<close>, which
  \<open>investigate_all_formats.py\<close> returns as an error dictionary and
  \<open>convert_all_ieee_formats.py\<close> as \<open>None\<close>.

  A declared payload length that reaches past the end of the file is not detected. For a
  chunk other than the format chunk the seek succeeds, the next read is empty and the
  walk ends with \<open>None\<close> in both scripts, without an error. For the format chunk the
  declared length \<open>sz\<close> is not looked at: the result is that of reading the fields from
  the bytes that follow, and only too few of those raise \<open>struct.error\<close>.
\<close>

theorem chunk_walk_truncated_or_oversized:
  assumes "length hdr = 12" and "\<forall>c\<in>set cs. skipped_chunk c"
  shows
    "(0 < length rest \<and> length rest < 8 \<longrightarrow>
        investigate_wav_format_all (hdr @ concat (map chunk_bytes cs) @ rest) =
          ErrorDict StructError \<and>
        investigate_wav_format (hdr @ concat (map chunk_bytes cs) @ rest) = None) \<and>
     (length cid = 4 \<and> cid \<noteq> ''fmt '' \<and> length sz = 4 \<and> length payload < le_value sz \<longrightarrow>
        investigate_wav_format_all (hdr @ concat (map chunk_bytes cs) @ cid @ sz @ payload) =
          NoResult \<and>
        investigate_wav_format (hdr @ concat (map chunk_bytes cs) @ cid @ sz @ payload) = None) \<and>
     (length sz = 4 \<longrightarrow>
        investigate_wav_format_all (hdr @ concat (map chunk_bytes cs) @ ''fmt '' @ sz @ payload) =
          (case read_fmt_fields (le_value (take 4 (drop 4 hdr))) payload of
             Inl e \<Rightarrow> ErrorDict e
           | Inr i \<Rightarrow> Format i) \<and>
        investigate_wav_format (hdr @ concat (map chunk_bytes cs) @ ''fmt '' @ sz @ payload) =
          (if 2 \<le> length payload then Some (le_value (take 2 payload)) else None))"
proof (intro conjI impI)
  assume "0 < length rest \<and> length rest < 8"
  then show
    "investigate_wav_format_all (hdr @ concat (map chunk_bytes cs) @ rest) = ErrorDict StructError"
    "investigate_wav_format (hdr @ concat (map chunk_bytes cs) @ rest) = None"
    using assms
    by (simp_all add: investigate_wav_format_hdr investigate_wav_format_all_hdr
          investigate_loop_prefix investigate_all_loop_prefix
          investigate_loop_short investigate_all_loop_short)
next
  assume a: "length cid = 4 \<and> cid \<noteq> ''fmt '' \<and> length sz = 4 \<and> length payload < le_value sz"
  then have "investigate_all_loop n (cid @ sz @ payload) = Inr None" for n
    by (simp add: investigate_all_loop_skip investigate_all_loop_empty)
  moreover from a have "investigate_loop (cid @ sz @ payload) = Inr None"
    by (simp add: investigate_loop_skip investigate_loop_empty)
  ultimately show
    "investigate_wav_format_all (hdr @ concat (map chunk_bytes cs) @ cid @ sz @ payload) = NoResult"
    "investigate_wav_format (hdr @ concat (map chunk_bytes cs) @ cid @ sz @ payload) = None"
    using assms
    by (simp_all add: investigate_wav_format_hdr investigate_wav_format_all_hdr
          investigate_loop_prefix investigate_all_loop_prefix)
next
  assume "length sz = 4"
  then show
    "investigate_wav_format_all (hdr @ concat (map chunk_bytes cs) @ ''fmt '' @ sz @ payload) =
       (case read_fmt_fields (le_value (take 4 (drop 4 hdr))) payload of
          Inl e \<Rightarrow> ErrorDict e
        | Inr i \<Rightarrow> Format i)"
    "investigate_wav_format (hdr @ concat (map chunk_bytes cs) @ ''fmt '' @ sz @ payload) =
       (if 2 \<le> length payload then Some (le_value (take 2 payload)) else None)"
    using assms
    by (simp_all add: investigate_wav_format_hdr investigate_wav_format_all_hdr
          investigate_loop_prefix investigate_all_loop_prefix
          fmt_chunk_cons bindE_def split: sum.splits)
qed

theorem chunk_walk_truncated_or_oversized_witness:
  "investigate_wav_format_all
     (''RIFF'' @ pack_I 68 @ ''WAVE'' @ chunk_bytes list_chunk @ ''LIS'') =
     ErrorDict StructError \<and>
   investigate_wav_format
     (''RIFF'' @ pack_I 68 @ ''WAVE'' @ chunk_bytes list_chunk @ ''LIS'') = None \<and>
   investigate_wav_format_all
     (''RIFF'' @ pack_I 68 @ ''WAVE'' @ chunk_bytes list_chunk @ ''JUNK'' @ pack_I 1000 @ ''abc'') =
     NoResult \<and>
   investigate_wav_format
     (''RIFF'' @ pack_I 68 @ ''WAVE'' @ chunk_bytes list_chunk @ ''JUNK'' @ pack_I 1000 @ ''abc'') =
     None \<and>
   investigate_wav_format
     (''RIFF'' @ pack_I 68 @ ''WAVE'' @ chunk_bytes list_chunk @ ''fmt '' @ pack_I 1000 @ pack_H 3) =
     Some 3"
  using chunk_walk_truncated_or_oversized [of "''RIFF'' @ pack_I 68 @ ''WAVE''" "[list_chunk]"
      "''LIS''" "''JUNK''" "pack_I 1000" "''abc''"]
    chunk_walk_truncated_or_oversized [of "''RIFF'' @ pack_I 68 @ ''WAVE''" "[list_chunk]"
      "''LIS''" "''JUNK''" "pack_I 1000" "pack_H 3"]
  by (simp add: skipped_chunk_def list_chunk_def pack_I_def pack_H_def le_value_def)

text \<open>
  C8 as stated fails: the value returned for a file without a data chunk is a plain
  number. \<open>get_audio_duration\<close> returns the same \<open>Some (1 / 500)\<close> for the file
  without data chunk, through the fallback, and for a dictionary that holds an exact
  \<open>duration\<close>; nothing in the result tells the two apart. The \<open>file_size\<close> of the
  fallback is the size field of the outer header, here 76, not the 36 bytes of the file:
  \<open>(76 - 44) / 16000\<close>.
\<close>

theorem fallback_not_flagged:
  "length wav_no_data = 36 \<and>
   get_audio_duration wav_no_data = Some (1 / 500) \<and>
   get_audio_duration_body (Some exact_header) (Some exact_header) = Inr (Some (1 / 500))"
  by (simp add: get_audio_duration_fallback read_wav_header_def read_wav_header_body_def
        read_wav_header_loop.simps probe_eval wav_no_data_def exact_header_def
        get_audio_duration_body_def)

lemma read_fmt_fields_Inr:
  "read_fmt_fields fsize bs = Inr i \<Longrightarrow>
   file_size i = fsize \<and> byte_rate i = le_value (take 4 (drop 8 bs))"
  by (auto simp: read_fmt_fields_def bindE_def unpack_I_def split: sum.splits if_splits)

lemma read_wav_header_loop_file_size:
  "read_wav_header_loop fsize None bs = Inr (Some h) \<Longrightarrow> file_size h = fsize"
proof (induction "length bs" arbitrary: bs rule: less_induct)
  case less
  have IH: "bs \<noteq> [] \<Longrightarrow> read_wav_header_loop fsize None (drop (n + 8) bs) = Inr (Some h)
              \<Longrightarrow> file_size h = fsize" for n
    using less.hyps [of "drop (n + 8) bs"] by auto
  from less.prems show ?case
    apply (subst (asm) read_wav_header_loop.simps)
    apply (auto simp: Let_def bindE_def header_dict_def split: if_splits sum.splits
                dest: IH read_fmt_fields_Inr)
    done
qed

lemma read_wav_header_file_size:
  assumes "read_wav_header bs = Some h"
  shows "file_size h = le_value (take 4 (drop 4 bs))"
proof -
  from assms have "read_wav_header_body bs = Inr (Some h)"
    by (auto simp: read_wav_header_def split: sum.splits)
  then show ?thesis
    by (auto simp: read_wav_header_body_def bindE_def Let_def unpack_I_def
             split: if_splits sum.splits dest: read_wav_header_loop_file_size)
qed

lemma read_wav_header_byte_rate:
  assumes "read_wav_header bs = Some h"
    and "length sz0 = 4" and "\<forall>c\<in>set cs. skipped_chunk c" and "length sz = 4"
    and "length fld = 16"
    and "bs = ''RIFF'' @ sz0 @ ''WAVE'' @ concat (map chunk_bytes cs) @ ''fmt '' @ sz @ fld @ rest"
  shows "byte_rate h = le_value (take 4 (drop 8 fld))"
proof -
  have "read_wav_header_body bs =
          bindE (read_fmt_fields (le_value sz0) (fld @ rest))
            (\<lambda>i. Inr (Some (header_dict i None)))"
    using assms(2-5) unfolding assms(6)
    by (simp add: read_wav_header_body_def unpack_I_def bindE_def
          read_wav_header_loop_prefix fmt_chunk_cons)
  with assms(1) obtain i where "read_fmt_fields (le_value sz0) (fld @ rest) = Inr i"
    and "h = header_dict i None"
    by (auto simp: read_wav_header_def bindE_def split: sum.splits)
  then show ?thesis
    using read_fmt_fields_Inr [of "le_value sz0" "fld @ rest" i] assms(5)
    by (simp add: header_dict_def)
qed

text \<open>
  C8, amended: for a container in which no data chunk is located and for which
  \<open>read_wav_header\<close> returns a dictionary with a positive \<open>byte_rate\<close>,
  \<open>get_audio_duration\<close> returns the number \<open>(file_size - 44) / byte_rate\<close>, never
  \<open>None\<close>. \<open>file_size\<close> is the size field of the outer header, bytes 4 to 7 of the file,
  and, when the format chunk comes after the outer header and chunks that the walk skips,
  \<open>byte_rate\<close> is bytes 8 to 11 of its fields. The number carries no mark of being an
  estimate.
\<close>

theorem fallback_duration_value:
  assumes "read_wav_header bs = Some h" and "0 < byte_rate h"
    and "\<not> spec_data_chunk_located (drop 12 bs)"
  shows "file_size h = le_value (take 4 (drop 4 bs)) \<and>
         get_audio_duration bs =
           Some ((rat_of_nat (le_value (take 4 (drop 4 bs))) - 44) / rat_of_nat (byte_rate h)) \<and>
         (length sz0 = 4 \<and> (\<forall>c\<in>set cs. skipped_chunk c) \<and> length sz = 4 \<and>
          length fld = 16 \<and>
          bs = ''RIFF'' @ sz0 @ ''WAVE'' @ concat (map chunk_bytes cs) @
                 ''fmt '' @ sz @ fld @ rest \<longrightarrow>
            byte_rate h = le_value (take 4 (drop 8 fld)))"
  using assms read_wav_header_file_size [OF assms(1)] read_wav_header_byte_rate [OF assms(1)]
  by (auto simp: get_audio_duration_fallback)

lemma read_wav_header_no_data:
  "read_wav_header wav_no_data =
     Some \<lparr>audio_format = 1, num_channels = 1, sample_rate = 8000, byte_rate = 16000,
           block_align = 2, bits_per_sample = 16, file_size = 76, duration = None\<rparr>"
  by (simp add: read_wav_header_def read_wav_header_body_def
        read_wav_header_loop.simps probe_eval wav_no_data_def)

lemma no_data_chunk_in_wav_no_data: "\<not> spec_data_chunk_located (drop 12 wav_no_data)"
  by (simp add: wav_no_data_def spec_data_chunk_located.simps probe_eval)

lemma wav_no_data_shape:
  "length (pack_I 76) = 4 \<and> length (pack_I 16) = 4 \<and>
   length (pack_H 1 @ pack_H 1 @ pack_I 8000 @ pack_I 16000 @ pack_H 2 @ pack_H 16) = 16 \<and>
   wav_no_data =
     ''RIFF'' @ pack_I 76 @ ''WAVE'' @ concat (map chunk_bytes []) @ ''fmt '' @ pack_I 16 @
       (pack_H 1 @ pack_H 1 @ pack_I 8000 @ pack_I 16000 @ pack_H 2 @ pack_H 16) @ []"
  by (simp add: wav_no_data_def wav_chunks_def pack_I_def pack_H_def)

theorem fallback_duration_value_witness:
  "read_wav_header wav_no_data \<noteq> None \<and>
   \<not> spec_data_chunk_located (drop 12 wav_no_data) \<and>
   le_value (take 4 (drop 4 wav_no_data)) = 76 \<and>
   le_value (take 4 (drop 8
     (pack_H 1 @ pack_H 1 @ pack_I 8000 @ pack_I 16000 @ pack_H 2 @ pack_H 16))) = 16000 \<and>
   get_audio_duration wav_no_data = Some (1 / 500)"
proof -
  have le: "le_value (take 4 (drop 4 wav_no_data)) = 76"
    by (simp add: wav_no_data_def pack_I_def le_value_def)
  show ?thesis
    using fallback_duration_value [OF read_wav_header_no_data _ no_data_chunk_in_wav_no_data,
        of "pack_I 76" "[]" "pack_I 16"
          "pack_H 1 @ pack_H 1 @ pack_I 8000 @ pack_I 16000 @ pack_H 2 @ pack_H 16" "[]"]
      wav_no_data_shape
    by (simp add: read_wav_header_no_data no_data_chunk_in_wav_no_data le)
qed

text \<open>
  C9, on the code: a file whose format chunk has a sample rate of zero and a byte rate
  of 16000. The only division that runs is the one by \<open>byte_rate\<close>, so the result is a
  number, not \<open>None\<close>.
\<close>

theorem zero_sample_rate_not_guarded:
  "map_option sample_rate (read_wav_header (wav_bytes 1 0)) = Some 0 \<and>
   get_audio_duration (wav_bytes 1 0) = Some (3 / 2000)"
  by (simp add: get_audio_duration_fallback read_wav_header_wav_bytes)



section \<open>Properties of the conversion loops\<close>

lemma rfind_append:
  "rfind (xs @ ys) c =
     (case rfind ys c of Some j \<Rightarrow> Some (length xs + j) | None \<Rightarrow> rfind xs c)"
  by (induction xs) (auto split: option.splits)

lemma rfind_less: "rfind xs c = Some i \<Longrightarrow> i < length xs"
  by (induction xs arbitrary: i) (auto split: option.splits if_splits)

lemma temp_ne_name:
  assumes "rfind sfx CHR ''.'' = Some j" and "0 < j"
  shows "path_stem name @ sfx \<noteq> name"
proof
  assume eq: "path_stem name @ sfx = name"
  have sfx: "sfx \<noteq> []" using assms(1) by auto
  show False
  proof (cases "path_stem name = name")
    case True
    with eq sfx show False by simp
  next
    case False
    then obtain i where i: "rfind name CHR ''.'' = Some i" "path_stem name = take i name"
      by (auto simp: path_stem_def split: option.splits if_splits)
    have "length (take i name) = i" using rfind_less [OF i(1)] by simp
    moreover have "rfind (take i name @ sfx) CHR ''.'' = Some i" using eq i by simp
    ultimately show False using assms by (simp add: rfind_append)
  qed
qed



lemma temp_ne_name_test: "path_stem name @ ''.test.wav'' \<noteq> name"
  by (rule temp_ne_name [of _ 5]) simp_all

lemma convert_wav_format_frame:
  "p \<noteq> inp \<Longrightarrow> p \<noteq> out \<Longrightarrow> snd (convert_wav_format tool fs inp out) p = fs p"
  by (simp add: convert_wav_format_def apply_effect_def Let_def
           split: run_result.splits effect.splits)

lemma convert_file_frame_Inr:
  "convert_file sfx tool fs n = Inr (fs', out) \<Longrightarrow>
   p \<noteq> Wavs n \<Longrightarrow> p \<noteq> Wavs (path_stem n @ sfx) \<Longrightarrow> p \<noteq> Backup n \<Longrightarrow>
   fs' p = fs p"
  by (auto simp: convert_file_def Let_def copy2_def unlink_def rename_def exists_def
                 convert_wav_format_frame
           split: option.splits sum.splits if_splits)

lemma convert_file_frame_Inl:
  "convert_file sfx tool fs n = Inl (e, fs') \<Longrightarrow>
   p \<noteq> Wavs n \<Longrightarrow> p \<noteq> Wavs (path_stem n @ sfx) \<Longrightarrow> p \<noteq> Backup n \<Longrightarrow>
   fs' p = fs p"
  by (auto simp: convert_file_def Let_def copy2_def unlink_def rename_def exists_def
                 convert_wav_format_frame
           split: option.splits sum.splits if_splits)






lemma convert_files_frame:
  "convert_files sfx tool fs names = (fs', outs, x) \<Longrightarrow>
   \<forall>n\<in>set names. p \<noteq> Wavs n \<and> p \<noteq> Wavs (path_stem n @ sfx) \<and> p \<noteq> Backup n \<Longrightarrow>
   fs' p = fs p"
proof (induction names arbitrary: fs fs' outs x)
  case Nil
  then show ?case by simp
next
  case (Cons a ss)
  show ?case
  proof (cases "convert_file sfx tool fs a")
    case (Inl b)
    then show ?thesis using Cons.prems
      by (cases b) (auto dest: convert_file_frame_Inl)
  next
    case (Inr b)
    obtain fs1 o1 where b: "b = (fs1, o1)" by (cases b)
    obtain fs2 outs2 x2 where r: "convert_files sfx tool fs1 ss = (fs2, outs2, x2)"
      by (cases "convert_files sfx tool fs1 ss") auto
    from Cons.prems(1) Inr b r have "fs' = fs2" by simp
    moreover have "fs2 p = fs1 p" using Cons.IH [OF r] Cons.prems(2) by simp
    moreover have "fs1 p = fs p" using Inr b Cons.prems(2)
      by (auto dest: convert_file_frame_Inr)
    ultimately show ?thesis by simp
  qed
qed





lemma main_loop_trace:
  "main_loop tool st names = (st', x) \<Longrightarrow>
   \<exists>outs. convert_files ''.temp.wav'' tool (files st) names = (files st', outs, x) \<and>
     set (failed_files st') =
       set (failed_files st) \<union> {(s, e) | s e. (s, Failed e) \<in> set outs}"
proof (induction names arbitrary: st)
  case Nil
  then show ?case by auto
next
  case (Cons a ss)
  show ?case
  proof (cases "convert_file ''.temp.wav'' tool (files st) a")
    case (Inl b)
    then show ?thesis using Cons.prems by (cases b) auto
  next
    case (Inr b)
    obtain fs1 o1 where b: "b = (fs1, o1)" by (cases b)
    show ?thesis
    proof (cases o1)
      case Converted
      with Inr b Cons.prems
      have "main_loop tool (st\<lparr>files := fs1, success_count := success_count st + 1\<rparr>) ss = (st', x)"
        by simp
      from Cons.IH [OF this] Inr b Converted show ?thesis by auto
    next
      case (Failed err)
      with Inr b Cons.prems
      have "main_loop tool (st\<lparr>files := fs1, failed_count := failed_count st + 1,
               failed_files := failed_files st @ [(a, err)]\<rparr>) ss = (st', x)"
        by simp
      from Cons.IH [OF this] Inr b Failed show ?thesis by auto
    qed
  qed
qed


lemma main_loop_frame:
  assumes "main_loop tool st names = (st', x)"
    and "\<forall>n\<in>set names. p \<noteq> Wavs n \<and> p \<noteq> Wavs (path_stem n @ ''.temp.wav'') \<and> p \<noteq> Backup n"
  shows "files st' p = files st p"
proof -
  from main_loop_trace [OF assms(1)] obtain outs where
    "convert_files ''.temp.wav'' tool (files st) names = (files st', outs, x)" by blast
  from convert_files_frame [OF this assms(2)] show ?thesis .
qed

lemma main_frame:
  assumes "main tool proceed fs wav_files = (st', x)"
    and "\<forall>t\<in>set (ieee_files fs wav_files).
           p \<noteq> Wavs t \<and> p \<noteq> Wavs (path_stem t @ ''.temp.wav'') \<and>
           p \<noteq> Wavs (path_stem t @ ''.test.wav'') \<and> p \<noteq> Backup t"
  shows "files st' p = fs p"
proof (cases "ieee_files fs wav_files")
  case Nil
  with assms(1) show ?thesis by (auto simp: main_def loop_start_def)
next
  case (Cons a others)
  have fr: "\<forall>n\<in>set (a # others).
              p \<noteq> Wavs n \<and> p \<noteq> Wavs (path_stem n @ ''.temp.wav'') \<and> p \<noteq> Backup n"
    using assms(2) Cons by simp
  have pa: "p \<noteq> Wavs (path_stem a @ ''.test.wav'')" "p \<noteq> Backup a" "p \<noteq> Wavs a"
    using assms(2) Cons by simp_all
  show ?thesis
  proof (cases "copy2 fs (Wavs a) (Backup a)")
    case (Inl e)
    with assms(1) Cons show ?thesis by (auto simp: main_def loop_start_def)
  next
    case (Inr fs1)
    then have fs1: "fs1 p = fs p" using pa
      by (auto simp: copy2_def split: option.splits)
    define fs2 where
      "fs2 = snd (convert_wav_format tool fs1 (Wavs a) (Wavs (path_stem a @ ''.test.wav'')))"
    have fs2: "fs2 p = fs p" using pa fs1 by (simp add: fs2_def convert_wav_format_frame)
    have fs3: "unlink fs2 (Wavs (path_stem a @ ''.test.wav'')) = Inr fs3 \<Longrightarrow> fs3 p = fs p" for fs3
      using pa fs2 by (auto simp: unlink_def split: option.splits)
    have lp: "files st' p = fs p"
      if "main_loop tool ((loop_start fs)\<lparr>files := fs3\<rparr>) (a # others) = (st', x)"
        and "fs3 p = fs p" for fs3
      using main_loop_frame [OF that(1) fr] that(2) by simp
    from assms(1) Cons Inr show ?thesis
      using fs2 fs3 lp
      by (auto simp: main_def Let_def fs2_def [symmetric] simp del: main_loop.simps
               split: if_splits sum.splits)
  qed
qed

lemmas fs_eval =
  convert_file_def convert_wav_format_def apply_effect_def copy2_def unlink_def rename_def
  exists_def Let_def failing_tool_def pcm_tool_def junk_tool_def clobber_tool_def
  undecodable_tool_def loop_start_def zh_start_def

lemma path_stem_eval:
  "path_stem ''a.wav'' = ''a''" "path_stem ''b.wav'' = ''b''"
  "path_stem ''a.temp.wav'' = ''a.temp''" "path_stem ''zh_a.wav'' = ''zh_a''"
  "path_stem ''.wav'' = ''.wav''"
  by (simp_all add: path_stem_def)

lemma probe_ieee_file: "investigate_wav_format (content ieee_file) = Some 3"
  by (simp add: ieee_file_def investigate_wav_format_def investigate_wav_format_body_def
        investigate_loop.simps probe_eval)

lemma probe_pcm_file: "investigate_wav_format (content pcm_file) = Some 1"
  by (simp add: pcm_file_def investigate_wav_format_def investigate_wav_format_body_def
        investigate_loop.simps probe_eval)















text \<open>
  C5 as stated fails in \<open>convert_chinese_wav_format.py\<close>, which has no probe: a file
  that is already PCM (tag 1) is backed up, converted and replaced like any other.
\<close>

theorem chinese_script_converts_pcm:
  "investigate_wav_format (content pcm_file) = Some 1 \<and>
   fs_zh (Wavs ''zh_a.wav'') = Some pcm_file \<and>
   zh_success_count (fst (backup_and_convert pcm_tool fs_zh [''zh_a.wav''])) = 1 \<and>
   zh_files (fst (backup_and_convert pcm_tool fs_zh [''zh_a.wav''])) (Wavs ''zh_a.wav'') =
     Some converted_file \<and>
   zh_files (fst (backup_and_convert pcm_tool fs_zh [''zh_a.wav''])) (Backup ''zh_a.wav'') =
     Some pcm_file \<and>
   converted_file \<noteq> pcm_file"
proof -
  have "converted_file \<noteq> pcm_file"
    by (simp add: converted_file_def pcm_file_def)
  then show ?thesis
    by (simp add: probe_pcm_file backup_and_convert_def fs_zh_def fs_eval path_stem_eval)
qed

text \<open>
  C5, amended: in \<open>main\<close> of \<open>convert_all_ieee_formats.py\<close>, a file whose probe
  returns tag 1 goes to \<open>pcm_files\<close> and not to the list that is converted; provided
  its name is neither the temporary output name (stem and \<open>.temp.wav\<close>) nor the test
  output name (stem and \<open>.test.wav\<close>) of a file with tag 3, the run leaves it (bytes and
  modification time) as it was and leaves its backup path as it was, however the run
  ends.
\<close>

theorem pcm_file_left_alone:
  assumes "s \<in> set wav_files" and "probe_file fs s = Some 1"
    and "\<forall>t\<in>set wav_files. probe_file fs t = Some 3 \<longrightarrow>
           path_stem t @ ''.temp.wav'' \<noteq> s \<and> path_stem t @ ''.test.wav'' \<noteq> s"
    and "main tool proceed fs wav_files = (st', x)"
  shows "s \<in> set (pcm_files fs wav_files) \<and> s \<notin> set (ieee_files fs wav_files) \<and>
         files st' (Wavs s) = fs (Wavs s) \<and>
         files st' (Backup s) = fs (Backup s)"
proof -
  have 1: "s \<in> set (pcm_files fs wav_files)" "s \<notin> set (ieee_files fs wav_files)"
    using assms(1,2) by (simp_all add: pcm_files_def ieee_files_def)
  have ne: "t \<noteq> s" if "t \<in> set (ieee_files fs wav_files)" for t
    using that assms(2) by (auto simp: ieee_files_def)
  have 2: "files st' (Wavs s) = fs (Wavs s)"
    using assms(3) ne by (intro main_frame [OF assms(4)]) (auto simp: ieee_files_def)
  have 3: "files st' (Backup s) = fs (Backup s)"
    using ne by (intro main_frame [OF assms(4)]) auto
  from 1 2 3 show ?thesis by simp
qed

lemma probe_file_fs_two:
  "probe_file fs_two ''a.wav'' = Some 3" "probe_file fs_two ''b.wav'' = Some 1"
  by (simp_all add: probe_file_def fs_two_def probe_ieee_file probe_pcm_file)

lemma main_fs_two:
  "success_count (fst (main pcm_tool True fs_two [''a.wav'', ''b.wav''])) = 1 \<and>
   files (fst (main pcm_tool True fs_two [''a.wav'', ''b.wav''])) (Wavs ''a.wav'') =
     Some converted_file"
  by (simp add: main_def ieee_files_def probe_file_fs_two)
     (simp add: fs_two_def fs_eval path_stem_eval)

theorem pcm_file_left_alone_witness:
  "pcm_files fs_two [''a.wav'', ''b.wav''] = [''b.wav''] \<and>
   success_count (fst (main pcm_tool True fs_two [''a.wav'', ''b.wav''])) = 1 \<and>
   files (fst (main pcm_tool True fs_two [''a.wav'', ''b.wav''])) (Wavs ''a.wav'') =
     Some converted_file \<and>
   files (fst (main pcm_tool True fs_two [''a.wav'', ''b.wav''])) (Wavs ''b.wav'') =
     Some pcm_file \<and>
   files (fst (main pcm_tool True fs_two [''a.wav'', ''b.wav''])) (Backup ''b.wav'') = None"
proof -
  have fs: "fs_two (Wavs ''b.wav'') = Some pcm_file" "fs_two (Backup ''b.wav'') = None"
    by (simp_all add: fs_two_def)
  show ?thesis
    using pcm_file_left_alone [where s = "''b.wav''" and wav_files = "[''a.wav'', ''b.wav'']" and fs = fs_two
        and tool = pcm_tool and proceed = True
        and st' = "fst (main pcm_tool True fs_two [''a.wav'', ''b.wav''])"
        and x = "snd (main pcm_tool True fs_two [''a.wav'', ''b.wav''])"]
    by (simp add: main_fs_two pcm_files_def probe_file_fs_two fs path_stem_eval)
qed

end
